theory Spec2Isabelle
  imports Main "HOL-Library.AList"
begin

section \<open>JavaScript values\<close>

text \<open>
  The Alipay payment method (\<^verbatim>\<open>src/unnamed/part_000\<close>, lines 97 to 1445) is
  untyped JavaScript, and what it does at its edges depends on the dynamic rules of the
  language: \<^verbatim>\<open>a || b\<close> and \<^verbatim>\<open>! a\<close> test truthiness, \<^verbatim>\<open>a?.p\<close>
  stops at a nullish value, \<^verbatim>\<open>a.p\<close> throws a TypeError on one. The values of the
  program are therefore modelled as they are at run time. Numbers are integers (the only
  numbers the code meets are string lengths), a string is its list of characters, an object
  is the list of its own properties in insertion order.
\<close>

datatype jsval =
    JUndefined
  | JNull
  | JBool bool
  | JNum int
  | JStr string
  | JObj "(string \<times> jsval) list"

type_synonym jsobj = "(string \<times> jsval) list"

text \<open>A computation either throws a value (\<open>Inl\<close>) or returns one (\<open>Inr\<close>).\<close>

type_synonym 'a js = "jsval + 'a"

definition js_bind :: "'a js \<Rightarrow> ('a \<Rightarrow> 'b js) \<Rightarrow> 'b js" where
  "js_bind m k = (case m of Inl e \<Rightarrow> Inl e | Inr v \<Rightarrow> k v)"

fun nullish :: "jsval \<Rightarrow> bool" where
  "nullish JUndefined = True"
| "nullish JNull = True"
| "nullish _ = False"

text \<open>ToBoolean: \<^verbatim>\<open>undefined\<close>, \<^verbatim>\<open>null\<close>, \<^verbatim>\<open>false\<close>, \<^verbatim>\<open>0\<close> and
  \<^verbatim>\<open>''\<close> are falsy, every object is truthy.\<close>

fun truthy :: "jsval \<Rightarrow> bool" where
  "truthy JUndefined = False"
| "truthy JNull = False"
| "truthy (JBool b) = b"
| "truthy (JNum n) = (n \<noteq> 0)"
| "truthy (JStr s) = (s \<noteq> [])"
| "truthy (JObj ps) = True"

text \<open>The value thrown by a property read on \<^verbatim>\<open>undefined\<close> or \<^verbatim>\<open>null\<close>. The
  wording of the message is the engine's; only its presence matters here.\<close>

definition TypeError :: "string \<Rightarrow> jsval" where
  "TypeError p =
     JObj [(''name'', JStr ''TypeError''),
           (''message'', JStr (''Cannot read property '' @ p))]"

text \<open>
  \<^verbatim>\<open>v.p\<close>: a TypeError on a nullish value, the own property of an object
  (\<^verbatim>\<open>undefined\<close> when it has none), the length of a string. Inherited members
  (methods of the prototypes) and the index properties of strings are not read anywhere in
  the modelled code and are left out.
\<close>

fun get_prop :: "jsval \<Rightarrow> string \<Rightarrow> jsval js" where
  "get_prop JUndefined p = Inl (TypeError p)"
| "get_prop JNull p = Inl (TypeError p)"
| "get_prop (JObj ps) p = Inr (case map_of ps p of Some v \<Rightarrow> v | None \<Rightarrow> JUndefined)"
| "get_prop (JStr s) p = Inr (if p = ''length'' then JNum (int (length s)) else JUndefined)"
| "get_prop _ p = Inr JUndefined"

text \<open>\<^verbatim>\<open>a?.rest\<close>: when \<open>a\<close> is nullish the whole chain is
  \<^verbatim>\<open>undefined\<close>, otherwise the rest of the chain is evaluated on \<open>a\<close>.\<close>

definition opt_chain :: "jsval \<Rightarrow> (jsval \<Rightarrow> jsval js) \<Rightarrow> jsval js" where
  "opt_chain a rest = (if nullish a then Inr JUndefined else rest a)"

section \<open>The store of the payment method\<close>

record action =
  type :: string
  payload :: jsval

text \<open>\<^verbatim>\<open>actions.changeCustomerName\<close>\<close>

definition changeCustomerName :: "jsval \<Rightarrow> action" where
  "changeCustomerName p = \<lparr> type = ''CUSTOMER_NAME_SET'', payload = p \<rparr>"

text \<open>\<^verbatim>\<open>selectors.getCustomerName\<close>: \<^verbatim>\<open>state.customerName || ''\<close>. The state is
  an object, so the read itself cannot throw.\<close>

definition getCustomerName :: "jsobj \<Rightarrow> jsval" where
  "getCustomerName state =
     (let customerName = (case map_of state ''customerName'' of Some v \<Rightarrow> v | None \<Rightarrow> JUndefined)
      in if truthy customerName then customerName else JStr '''')"

text \<open>The default value of the reducer's \<^verbatim>\<open>state\<close> parameter.\<close>

definition default_state :: jsobj where
  "default_state = [(''customerName'', JObj [(''value'', JStr ''''), (''isTouched'', JBool False)])]"

text \<open>
  The reducer. Its first argument is \<open>None\<close> when the caller passes
  \<^verbatim>\<open>undefined\<close>, which is when the default parameter applies. The spread
  \<^verbatim>\<open>{ ...state, customerName: v }\<close> keeps every property of \<open>state\<close> in place and
  sets \<^verbatim>\<open>customerName\<close>, appending it when absent.
\<close>

definition reducer :: "jsobj option \<Rightarrow> action \<Rightarrow> jsobj" where
  "reducer st a =
     (let state = (case st of None \<Rightarrow> default_state | Some s \<Rightarrow> s)
      in if type a = ''CUSTOMER_NAME_SET''
         then AList.update ''customerName''
                (JObj [(''value'', payload a), (''isTouched'', JBool True)]) state
         else state)"

text \<open>
  Modelled from the spec: \<^verbatim>\<open>registerStore\<close> of \<^verbatim>\<open>lib/registry\<close> is not among
  the sources. The spec calls it a generic action-dispatch mechanism to which the component
  supplies one reducer, and says that only the setter action may mutate the single shared
  cell: a dispatch replaces the state by the reducer's result, synchronously, and the store
  starts in the state the reducer gives for no state.
\<close>

definition dispatch :: "jsobj \<Rightarrow> action \<Rightarrow> jsobj" where
  "dispatch state a = reducer (Some state) a"

definition initial_state :: jsobj where
  "initial_state = reducer None \<lparr> type = ''@@INIT'', payload = JUndefined \<rparr>"

section \<open>The submit button\<close>

text \<open>
  What the click handler and the two promise handlers do to the outside is recorded as a
  trace, in the order of the calls. \<^verbatim>\<open>SubmitTransaction\<close> carries the fields of the
  object passed to the payment processor: \<^verbatim>\<open>stripe\<close>, \<^verbatim>\<open>name\<close>,
  \<^verbatim>\<open>items\<close>, \<^verbatim>\<open>total\<close>, \<^verbatim>\<open>stripeConfiguration\<close>. The setters of the
  transaction status, the event emitter and \<^verbatim>\<open>debug\<close> belong to other modules;
  they are taken not to throw, and \<^verbatim>\<open>debug\<close> leaves no trace.
\<close>

record money =
  displayValue :: string

record line_total =
  amount :: money

datatype effect =
    Dispatch action
  | SetTransactionPending
  | OnEvent action
  | SubmitTransaction jsval jsval jsval line_total jsval
  | SetTransactionError jsval
  | SetTransactionRedirecting jsval

text \<open>
  \<^verbatim>\<open>isFormValid( store )\<close>. The result is the returned boolean, the state of the store
  afterwards and the actions dispatched on the way.
\<close>

definition isFormValid :: "jsobj \<Rightarrow> (bool \<times> jsobj \<times> effect list) js" where
  "isFormValid state =
     (let customerName = getCustomerName state
      in js_bind
           (opt_chain customerName
              (\<lambda>c. js_bind (get_prop c ''value'') (\<lambda>v. get_prop v ''length'')))
           (\<lambda>len.
              if \<not> truthy len
              then Inr (False,
                        dispatch state (changeCustomerName (JStr '''')),
                        [Dispatch (changeCustomerName (JStr ''''))])
              else Inr (True, state, [])))"

text \<open>
  The \<^verbatim>\<open>onClick\<close> handler of \<^verbatim>\<open>AlipayPayButton\<close>, up to the call of the
  processor. \<open>customerName\<close> is the value the component selected when it rendered, as the
  closure holds it. The result is the state of the store and the trace.
\<close>

definition onClick ::
  "jsobj \<Rightarrow> jsval \<Rightarrow> jsval \<Rightarrow> jsval \<Rightarrow> line_total \<Rightarrow> jsval \<Rightarrow> (jsobj \<times> effect list) js" where
  "onClick state customerName stripe items tot stripeConfiguration =
     js_bind (isFormValid state)
       (\<lambda>(valid, state', trace).
          if valid
          then js_bind (opt_chain customerName (\<lambda>c. get_prop c ''value''))
                 (\<lambda>name. Inr (state',
                    trace @
                    [SetTransactionPending,
                     OnEvent \<lparr> type = ''REDIRECT_TRANSACTION_BEGIN'',
                               payload = JObj [(''paymentMethodId'', JStr ''alipay'')] \<rparr>,
                     SubmitTransaction stripe name items tot stripeConfiguration]))
          else Inr (state', trace))"

definition payment_error_message :: string where
  "payment_error_message =
     ''There was an error processing your payment. Please try again or contact support.''"

text \<open>The handler given to \<^verbatim>\<open>.then\<close>; \<open>i18n\<close> is the translation function
  \<^verbatim>\<open>__\<close> of \<^verbatim>\<open>useI18n\<close>.\<close>

definition thenHandler :: "(string \<Rightarrow> string) \<Rightarrow> jsval \<Rightarrow> (effect list) js" where
  "thenHandler i18n stripeResponse =
     js_bind (opt_chain stripeResponse (\<lambda>r. get_prop r ''redirect_url''))
       (\<lambda>u. if \<not> truthy u
             then Inr [SetTransactionError (JStr (i18n payment_error_message))]
             else js_bind (get_prop stripeResponse ''redirect_url'')
                    (\<lambda>url. Inr [SetTransactionRedirecting url]))"

text \<open>The handler given to \<^verbatim>\<open>.catch\<close>.\<close>

definition catchHandler :: "jsval \<Rightarrow> (effect list) js" where
  "catchHandler error = js_bind (get_prop error ''message'') (\<lambda>m. Inr [SetTransactionError m])"

text \<open>
  The promise settles once. \<^verbatim>\<open>p.then( f ).catch( g )\<close> runs \<open>f\<close> on the value
  \<open>p\<close> resolves to and \<open>g\<close> on what \<open>p\<close> rejects with or \<open>f\<close> throws; a throw of
  \<open>g\<close> is the outcome of the chain.
\<close>

datatype settlement = Resolved jsval | Rejected jsval

definition settle :: "(string \<Rightarrow> string) \<Rightarrow> settlement \<Rightarrow> (effect list) js" where
  "settle i18n s =
     (case s of
        Resolved stripeResponse \<Rightarrow>
          (case thenHandler i18n stripeResponse of
             Inr trace \<Rightarrow> Inr trace
           | Inl thrown \<Rightarrow> catchHandler thrown)
      | Rejected error \<Rightarrow> catchHandler error)"

text \<open>
  \<^verbatim>\<open>ButtonContents\<close>. The translation function, \<^verbatim>\<open>sprintf\<close> of the i18n library
  and \<^verbatim>\<open>renderDisplayValueMarkdown\<close> of the public API are parameters. The labels end
  in the character U+2026, written here as the three bytes of its UTF-8 form.
\<close>

definition ellipsis :: string where
  "ellipsis = [CHR 0xE2, CHR 0x80, CHR 0xA6]"

definition ButtonContents ::
  "(string \<Rightarrow> string) \<Rightarrow> (string \<Rightarrow> string \<Rightarrow> string) \<Rightarrow> (string \<Rightarrow> string)
     \<Rightarrow> string \<Rightarrow> line_total \<Rightarrow> string" where
  "ButtonContents i18n sprintf renderDisplayValueMarkdown formStatus tot =
     (if formStatus = ''submitting'' then i18n (''Processing'' @ ellipsis)
      else if formStatus = ''ready''
      then sprintf (i18n ''Pay %s'') (renderDisplayValueMarkdown (displayValue (amount tot)))
      else i18n (''Please wait'' @ ellipsis))"

section \<open>Observations used by the properties\<close>

text \<open>The touched flag as the field renderer reads it:
  \<^verbatim>\<open>customerName?.isTouched\<close> on the selected value.\<close>

definition isTouched_of :: "jsobj \<Rightarrow> jsval js" where
  "isTouched_of state = opt_chain (getCustomerName state) (\<lambda>c. get_prop c ''isTouched'')"

text \<open>The results of \<open>n\<close> calls of \<^verbatim>\<open>isFormValid\<close> in a row on one store, nothing
  else dispatching in between. A call that throws leaves the store as it was.\<close>

fun repeated_calls :: "nat \<Rightarrow> jsobj \<Rightarrow> (bool js) list" where
  "repeated_calls 0 state = []"
| "repeated_calls (Suc n) state =
     (case isFormValid state of
        Inl thrown \<Rightarrow> Inl thrown # repeated_calls n state
      | Inr (valid, state', trace) \<Rightarrow> Inr valid # repeated_calls n state')"

text \<open>What a call of \<^verbatim>\<open>isFormValid\<close> returned or threw, without the store.\<close>

definition outcome :: "(bool \<times> jsobj \<times> effect list) js \<Rightarrow> bool js" where
  "outcome r = (case r of Inl thrown \<Rightarrow> Inl thrown | Inr (valid, state', trace) \<Rightarrow> Inr valid)"

text \<open>
  The trimming the specification speaks of, which the source does not have: white space
  removed at both ends, as \<^verbatim>\<open>String.prototype.trim\<close> does on ASCII.
\<close>

definition is_space :: "char \<Rightarrow> bool" where
  "is_space c = (c \<in> set [CHR '' '', CHR 0x09, CHR 0x0A, CHR 0x0B, CHR 0x0C, CHR 0x0D])"

definition spec_trim :: "string \<Rightarrow> string" where
  "spec_trim s = rev (dropWhile is_space (rev (dropWhile is_space s)))"

text \<open>
  \<^verbatim>\<open>sprintf\<close> for the one directive the button's template has, used to run
  \<^verbatim>\<open>ButtonContents\<close> on an example: the argument replaces the first
  \<^verbatim>\<open>%s\<close>.
\<close>

fun sprintf_s :: "string \<Rightarrow> string \<Rightarrow> string" where
  "sprintf_s (c # d # fmt) arg =
     (if c = CHR ''%'' \<and> d = CHR ''s'' then arg @ fmt else c # sprintf_s (d # fmt) arg)"
| "sprintf_s fmt arg = fmt"

section \<open>Properties of the store\<close>

lemmas store_defs = getCustomerName_def reducer_def dispatch_def changeCustomerName_def

lemma map_of_update_same: "map_of (AList.update k v al) k = Some v"
  by (simp add: update_conv')

lemma dispatch_other: "type a \<noteq> ''CUSTOMER_NAME_SET'' \<Longrightarrow> dispatch state a = state"
  by (simp add: dispatch_def reducer_def)

lemma getCustomerName_touch:
  "getCustomerName (dispatch state (changeCustomerName (JStr x)))
     = JObj [(''value'', JStr x), (''isTouched'', JBool True)]"
  by (simp add: store_defs map_of_update_same)

text \<open>
  Claim C4. After the set-customer-name action with payload \<open>x\<close> has been reduced, from any
  prior state or from none, \<^verbatim>\<open>getCustomerName\<close> returns the field whose value is \<open>x\<close>
  and whose \<^verbatim>\<open>isTouched\<close> is true.
\<close>

theorem C4_set_then_get:
  "getCustomerName (reducer st (changeCustomerName (JStr x)))
     = JObj [(''value'', JStr x), (''isTouched'', JBool True)]
   \<and> get_prop (getCustomerName (reducer st (changeCustomerName (JStr x)))) ''value''
       = Inr (JStr x)
   \<and> get_prop (getCustomerName (reducer st (changeCustomerName (JStr x)))) ''isTouched''
       = Inr (JBool True)"
  by (simp add: getCustomerName_def reducer_def changeCustomerName_def map_of_update_same)

text \<open>
  Claim C10. An action whose type is not \<^verbatim>\<open>CUSTOMER_NAME_SET\<close> leaves the state as it
  is: the reducer returns the very state it was given (the default state when it was given
  none), so the customer-name field read after the dispatch is the one read before.
\<close>

theorem C10_reducer_frame:
  "type a \<noteq> ''CUSTOMER_NAME_SET'' \<Longrightarrow>
     reducer (Some state) a = state
     \<and> dispatch state a = state
     \<and> getCustomerName (dispatch state a) = getCustomerName state
     \<and> reducer None a = default_state"
  by (simp add: reducer_def dispatch_def)

text \<open>The frame property on a store holding a name, at an initialisation action.\<close>

theorem C10_reducer_frame_witness:
  "type \<lparr> type = ''@@INIT'', payload = JUndefined \<rparr> \<noteq> ''CUSTOMER_NAME_SET''
   \<and> reducer (Some [(''customerName'', JObj [(''value'', JStr ''Jane''), (''isTouched'', JBool True)])])
        \<lparr> type = ''@@INIT'', payload = JUndefined \<rparr>
      = [(''customerName'', JObj [(''value'', JStr ''Jane''), (''isTouched'', JBool True)])]"
  using C10_reducer_frame [of "\<lparr> type = ''@@INIT'', payload = JUndefined \<rparr>"
      "[(''customerName'', JObj [(''value'', JStr ''Jane''), (''isTouched'', JBool True)])]"]
  by simp

text \<open>
  Claim C6, as the code has it. On a state with no \<^verbatim>\<open>customerName\<close> property the
  selector returns the empty string, the right operand of its \<^verbatim>\<open>||\<close>. The field
  \<^verbatim>\<open>{ value: '', isTouched: false }\<close> is what it returns on the initial state of
  the store, where the reducer's default parameter has put it.
\<close>

theorem C6_missing_field_gives_empty_string:
  "(map_of state ''customerName'' = None \<longrightarrow> getCustomerName state = JStr '''')
   \<and> getCustomerName initial_state = JObj [(''value'', JStr ''''), (''isTouched'', JBool False)]"
  by (simp add: getCustomerName_def initial_state_def default_state_def reducer_def)

text \<open>The selector on a state that holds another property only.\<close>

theorem C6_missing_field_witness:
  "map_of [(''other'', JNum 1)] ''customerName'' = None
   \<and> getCustomerName [(''other'', JNum 1)] = JStr ''''"
  using C6_missing_field_gives_empty_string [of "[(''other'', JNum 1)]"] by simp

text \<open>
  Claim C6 as written fails on the empty state: it has no \<^verbatim>\<open>customerName\<close>, and the
  selector returns a string, not the default field object.
\<close>

theorem C6_counterexample:
  "map_of ([] :: jsobj) ''customerName'' = None
   \<and> getCustomerName [] = JStr ''''
   \<and> getCustomerName [] \<noteq> JObj [(''value'', JStr ''''), (''isTouched'', JBool False)]"
  by (simp add: getCustomerName_def)

subsection \<open>The touched flag only rises\<close>

lemma dispatch_set_touched:
  "type a = ''CUSTOMER_NAME_SET'' \<Longrightarrow> isTouched_of (dispatch state a) = Inr (JBool True)"
  by (simp add: isTouched_of_def getCustomerName_def reducer_def dispatch_def opt_chain_def
      map_of_update_same)

lemma touched_dispatch:
  "isTouched_of state = Inr (JBool True) \<Longrightarrow> isTouched_of (dispatch state a) = Inr (JBool True)"
  by (cases "type a = ''CUSTOMER_NAME_SET''") (simp_all add: dispatch_other dispatch_set_touched)

lemma touched_foldl:
  "isTouched_of state = Inr (JBool True) \<Longrightarrow>
   isTouched_of (foldl dispatch state as) = Inr (JBool True)"
  by (induction as arbitrary: state) (simp_all add: touched_dispatch)

text \<open>
  Claim C5. The store starts with \<^verbatim>\<open>isTouched\<close> false. Whatever actions \<open>as\<close> have
  been dispatched from there, if \<^verbatim>\<open>isTouched\<close> is true after them then it is true
  after any further actions \<open>bs\<close>: it is never false again.
\<close>

theorem C5_touched_is_monotone:
  "isTouched_of initial_state = Inr (JBool False)
   \<and> (isTouched_of (foldl dispatch initial_state as) = Inr (JBool True) \<longrightarrow>
        isTouched_of (foldl dispatch initial_state (as @ bs)) = Inr (JBool True)
        \<and> isTouched_of (foldl dispatch initial_state (as @ bs)) \<noteq> Inr (JBool False))"
proof
  show "isTouched_of initial_state = Inr (JBool False)"
    by (simp add: isTouched_of_def initial_state_def default_state_def store_defs opt_chain_def)
next
  show "isTouched_of (foldl dispatch initial_state as) = Inr (JBool True) \<longrightarrow>
        isTouched_of (foldl dispatch initial_state (as @ bs)) = Inr (JBool True)
        \<and> isTouched_of (foldl dispatch initial_state (as @ bs)) \<noteq> Inr (JBool False)"
    by (simp add: touched_foldl)
qed

text \<open>A name is typed, then an unrelated action and the setter with the empty string follow.\<close>

theorem C5_witness:
  "isTouched_of (foldl dispatch initial_state [changeCustomerName (JStr ''J'')]) = Inr (JBool True)
   \<and> isTouched_of (foldl dispatch initial_state
        ([changeCustomerName (JStr ''J'')] @
         [\<lparr> type = ''OTHER'', payload = JNull \<rparr>, changeCustomerName (JStr '''')]))
       = Inr (JBool True)"
  using C5_touched_is_monotone [of "[changeCustomerName (JStr ''J'')]"
      "[\<lparr> type = ''OTHER'', payload = JNull \<rparr>, changeCustomerName (JStr '''')]"]
  by (simp add: isTouched_of_def initial_state_def default_state_def store_defs opt_chain_def)

section \<open>Properties of the validation\<close>

lemma isFormValid_cases:
  "isFormValid state = Inr (valid, state', trace) \<Longrightarrow>
     (valid \<and> state' = state \<and> trace = [])
     \<or> (\<not> valid \<and> state' = dispatch state (changeCustomerName (JStr ''''))
         \<and> trace = [Dispatch (changeCustomerName (JStr ''''))])"
  by (auto simp add: isFormValid_def js_bind_def Let_def split: sum.splits if_splits)

lemma isFormValid_after_touch:
  "isFormValid (dispatch state (changeCustomerName (JStr '''')))
     = Inr (False, dispatch state (changeCustomerName (JStr '''')),
            [Dispatch (changeCustomerName (JStr ''''))])"
  by (simp add: isFormValid_def getCustomerName_touch opt_chain_def js_bind_def)
    (simp add: dispatch_def reducer_def changeCustomerName_def)

lemma outcome_stable:
  "isFormValid state = Inr (valid, state', trace) \<Longrightarrow>
   outcome (isFormValid state') = Inr valid"
  using isFormValid_cases [of state valid state' trace]
  by (auto simp add: outcome_def isFormValid_after_touch)

lemma isFormValid_string_value:
  assumes "get_prop (getCustomerName state) ''value'' = Inr (JStr s)"
  shows "isFormValid state =
     (if length s = 0
      then Inr (False, dispatch state (changeCustomerName (JStr '''')),
                [Dispatch (changeCustomerName (JStr ''''))])
      else Inr (True, state, []))"
proof -
  have "\<not> nullish (getCustomerName state)"
    using assms by (cases "getCustomerName state") simp_all
  then show ?thesis
    using assms by (simp add: isFormValid_def opt_chain_def js_bind_def)
qed

text \<open>
  Claim C2, as the code has it. When the customer name in the store has a string for its
  value, \<^verbatim>\<open>isFormValid\<close> looks at the length of that string as it stands, untrimmed.
  If the length is zero it dispatches the setter with the empty string, after which the
  field has the same value and \<^verbatim>\<open>isTouched\<close> true, and returns false; otherwise it
  dispatches nothing, leaves the store alone and returns true.
\<close>

theorem C2_isFormValid_untrimmed:
  "get_prop (getCustomerName state) ''value'' = Inr (JStr s) \<Longrightarrow>
     isFormValid state =
       (if length s = 0
        then Inr (False, dispatch state (changeCustomerName (JStr '''')),
                  [Dispatch (changeCustomerName (JStr ''''))])
        else Inr (True, state, []))
     \<and> (length s = 0 \<longrightarrow>
          getCustomerName (dispatch state (changeCustomerName (JStr '''')))
            = JObj [(''value'', JStr s), (''isTouched'', JBool True)])"
  by (simp add: isFormValid_string_value getCustomerName_touch)

text \<open>Both branches: the initial store, and a store holding a name.\<close>

theorem C2_witness:
  "get_prop (getCustomerName initial_state) ''value'' = Inr (JStr '''')
   \<and> isFormValid initial_state
       = Inr (False,
              [(''customerName'', JObj [(''value'', JStr ''''), (''isTouched'', JBool True)])],
              [Dispatch (changeCustomerName (JStr ''''))])
   \<and> get_prop (getCustomerName
        [(''customerName'', JObj [(''value'', JStr ''Jane Doe''), (''isTouched'', JBool True)])])
        ''value'' = Inr (JStr ''Jane Doe'')
   \<and> isFormValid
        [(''customerName'', JObj [(''value'', JStr ''Jane Doe''), (''isTouched'', JBool True)])]
       = Inr (True,
              [(''customerName'', JObj [(''value'', JStr ''Jane Doe''), (''isTouched'', JBool True)])],
              [])"
  using C2_isFormValid_untrimmed [of initial_state "''''"]
    C2_isFormValid_untrimmed
      [of "[(''customerName'', JObj [(''value'', JStr ''Jane Doe''), (''isTouched'', JBool True)])]"
          "''Jane Doe''"]
  by (simp add: initial_state_def default_state_def store_defs)

text \<open>
  Claim C2 as written fails on a name of two spaces: trimmed it is empty, yet
  \<^verbatim>\<open>isFormValid\<close> returns true and dispatches nothing.
\<close>

theorem C2_counterexample:
  "length (spec_trim ''  '') = 0
   \<and> get_prop (getCustomerName
        [(''customerName'', JObj [(''value'', JStr ''  ''), (''isTouched'', JBool True)])])
        ''value'' = Inr (JStr ''  '')
   \<and> isFormValid [(''customerName'', JObj [(''value'', JStr ''  ''), (''isTouched'', JBool True)])]
       = Inr (True,
              [(''customerName'', JObj [(''value'', JStr ''  ''), (''isTouched'', JBool True)])],
              [])"
  by (simp add: spec_trim_def is_space_def isFormValid_def getCustomerName_def opt_chain_def
      js_bind_def)

text \<open>
  Claim C7. Calls of \<^verbatim>\<open>isFormValid\<close> in a row, with nothing else dispatching in
  between, all give what the first one gave, on every state of the store: the same boolean,
  or the same thrown value where the read of the name throws. The call that returns false
  has dispatched the setter, and the next one finds the value still empty.
\<close>

theorem C7_isFormValid_idempotent:
  "repeated_calls n state = replicate n (outcome (isFormValid state))"
proof (induction n arbitrary: state)
  case 0
  show ?case by simp
next
  case (Suc n)
  show ?case
  proof (cases "isFormValid state")
    case (Inl thrown)
    then show ?thesis using Suc [of state] by (simp add: outcome_def)
  next
    case (Inr r)
    obtain valid state' trace where r: "r = (valid, state', trace)"
      by (cases r) auto
    have "outcome (isFormValid state') = Inr valid"
      using Inr r by (simp add: outcome_stable)
    then show ?thesis using Suc [of state'] Inr r by (simp add: outcome_def)
  qed
qed

text \<open>Three calls on the initial store, two on a store holding a name.\<close>

theorem C7_witness:
  "repeated_calls 3 initial_state = [Inr False, Inr False, Inr False]
   \<and> repeated_calls 2 [(''customerName'', JObj [(''value'', JStr ''Jane''), (''isTouched'', JBool True)])]
       = [Inr True, Inr True]"
  using C7_isFormValid_idempotent [of 3 initial_state]
    C7_isFormValid_idempotent [of 2
      "[(''customerName'', JObj [(''value'', JStr ''Jane''), (''isTouched'', JBool True)])]"]
  by (simp add: numeral_3_eq_3 numeral_2_eq_2 outcome_def isFormValid_def initial_state_def
      default_state_def store_defs opt_chain_def js_bind_def)

section \<open>Properties of the submission\<close>

lemma opt_read_returns: "\<exists>v. opt_chain c (\<lambda>c. get_prop c p) = Inr v"
  by (cases c) (simp_all add: opt_chain_def)

lemma get_prop_not_nullish: "get_prop v p = Inr u \<Longrightarrow> \<not> nullish v"
  by (cases v) simp_all

text \<open>
  Claim C3. On a store whose customer name has the empty string for its value, the click
  dispatches the setter with the empty string and does nothing else: the trace holds no
  pending transition, no event and no call of the processor, and the field in the store has
  the value \<^verbatim>\<open>''\<close> and \<^verbatim>\<open>isTouched\<close> true afterwards.
\<close>

theorem C3_empty_name_blocks_submit:
  "get_prop (getCustomerName state) ''value'' = Inr (JStr '''') \<Longrightarrow>
     onClick state customerName stripe items tot stripeConfiguration
       = Inr (dispatch state (changeCustomerName (JStr '''')),
              [Dispatch (changeCustomerName (JStr ''''))])
     \<and> getCustomerName (dispatch state (changeCustomerName (JStr '''')))
         = JObj [(''value'', JStr ''''), (''isTouched'', JBool True)]"
  by (simp add: onClick_def isFormValid_string_value js_bind_def getCustomerName_touch)

text \<open>The click on the initial store.\<close>

theorem C3_witness:
  "get_prop (getCustomerName initial_state) ''value'' = Inr (JStr '''')
   \<and> onClick initial_state (getCustomerName initial_state) JNull (JObj [])
        \<lparr> amount = \<lparr> displayValue = ''$10'' \<rparr> \<rparr> JNull
       = Inr ([(''customerName'', JObj [(''value'', JStr ''''), (''isTouched'', JBool True)])],
              [Dispatch (changeCustomerName (JStr ''''))])"
  using C3_empty_name_blocks_submit [of initial_state "getCustomerName initial_state" JNull
      "JObj []" "\<lparr> amount = \<lparr> displayValue = ''$10'' \<rparr> \<rparr>" JNull]
  by (simp add: initial_state_def default_state_def store_defs)

text \<open>
  Claim C8. When \<^verbatim>\<open>isFormValid\<close> returns true, the click issues exactly three calls,
  in this order: the pending transition, the \<^verbatim>\<open>REDIRECT_TRANSACTION_BEGIN\<close> event,
  the call of the processor. The read of the name for the processor's argument cannot throw,
  so the handler always reaches the call. The promise handlers run only when that call
  settles.
\<close>

theorem C8_pending_and_event_before_submit:
  "isFormValid state = Inr (True, state', trace) \<Longrightarrow>
     \<exists>name. opt_chain customerName (\<lambda>c. get_prop c ''value'') = Inr name
       \<and> onClick state customerName stripe items tot stripeConfiguration
           = Inr (state,
                  [SetTransactionPending,
                   OnEvent \<lparr> type = ''REDIRECT_TRANSACTION_BEGIN'',
                             payload = JObj [(''paymentMethodId'', JStr ''alipay'')] \<rparr>,
                   SubmitTransaction stripe name items tot stripeConfiguration])"
proof -
  assume v: "isFormValid state = Inr (True, state', trace)"
  then have same: "state' = state" "trace = []"
    using isFormValid_cases [of state True state' trace] by simp_all
  obtain name where n: "opt_chain customerName (\<lambda>c. get_prop c ''value'') = Inr name"
    using opt_read_returns by blast
  show ?thesis
    using v same n by (simp add: onClick_def js_bind_def)
qed

text \<open>The click on a store holding the name Jane Doe.\<close>

theorem C8_witness:
  "isFormValid [(''customerName'', JObj [(''value'', JStr ''Jane Doe''), (''isTouched'', JBool True)])]
     = Inr (True,
            [(''customerName'', JObj [(''value'', JStr ''Jane Doe''), (''isTouched'', JBool True)])],
            [])
   \<and> onClick [(''customerName'', JObj [(''value'', JStr ''Jane Doe''), (''isTouched'', JBool True)])]
        (JObj [(''value'', JStr ''Jane Doe''), (''isTouched'', JBool True)])
        JNull (JObj []) \<lparr> amount = \<lparr> displayValue = ''$10'' \<rparr> \<rparr> JNull
       = Inr ([(''customerName'', JObj [(''value'', JStr ''Jane Doe''), (''isTouched'', JBool True)])],
              [SetTransactionPending,
               OnEvent \<lparr> type = ''REDIRECT_TRANSACTION_BEGIN'',
                         payload = JObj [(''paymentMethodId'', JStr ''alipay'')] \<rparr>,
               SubmitTransaction JNull (JStr ''Jane Doe'') (JObj [])
                 \<lparr> amount = \<lparr> displayValue = ''$10'' \<rparr> \<rparr> JNull])"
proof -
  let ?st = "[(''customerName'', JObj [(''value'', JStr ''Jane Doe''), (''isTouched'', JBool True)])]"
  have v: "isFormValid ?st = Inr (True, ?st, [])"
    by (simp add: isFormValid_def getCustomerName_def opt_chain_def js_bind_def)
  show ?thesis
    using v C8_pending_and_event_before_submit [OF v,
        of "JObj [(''value'', JStr ''Jane Doe''), (''isTouched'', JBool True)]"
           JNull "JObj []" "\<lparr> amount = \<lparr> displayValue = ''$10'' \<rparr> \<rparr>" JNull]
    by (simp add: opt_chain_def)
qed

text \<open>
  Claim C1, as the code has it. When the call resolves with a response that is
  \<^verbatim>\<open>null\<close> or \<^verbatim>\<open>undefined\<close>, or whose \<^verbatim>\<open>redirect_url\<close> reads as a falsy
  value (the property is missing, or is the empty string, say), the status is set to error
  with the translation of the fixed message and no redirecting transition is made. When
  \<^verbatim>\<open>redirect_url\<close> is truthy, the status is set to redirecting with exactly that
  value. When the call rejects with a value whose \<^verbatim>\<open>message\<close> can be read (any value
  but \<^verbatim>\<open>null\<close> and \<^verbatim>\<open>undefined\<close>), the status is set to error with that message
  as it is.
\<close>

theorem C1_settlement_sets_status:
  "(nullish r \<or> (\<exists>u. get_prop r ''redirect_url'' = Inr u \<and> \<not> truthy u) \<longrightarrow>
      settle i18n (Resolved r) = Inr [SetTransactionError (JStr (i18n payment_error_message))])
   \<and> (\<forall>u. get_prop r ''redirect_url'' = Inr u \<and> truthy u \<longrightarrow>
      settle i18n (Resolved r) = Inr [SetTransactionRedirecting u])
   \<and> (\<forall>m. get_prop e ''message'' = Inr m \<longrightarrow>
      settle i18n (Rejected e) = Inr [SetTransactionError m])"
proof (intro conjI allI impI)
  assume "nullish r \<or> (\<exists>u. get_prop r ''redirect_url'' = Inr u \<and> \<not> truthy u)"
  then show "settle i18n (Resolved r) = Inr [SetTransactionError (JStr (i18n payment_error_message))]"
  proof
    assume "nullish r"
    then show ?thesis
      by (simp add: settle_def thenHandler_def opt_chain_def js_bind_def)
  next
    assume "\<exists>u. get_prop r ''redirect_url'' = Inr u \<and> \<not> truthy u"
    then obtain u where u: "get_prop r ''redirect_url'' = Inr u" "\<not> truthy u" by blast
    then show ?thesis
      using get_prop_not_nullish [OF u(1)]
      by (simp add: settle_def thenHandler_def opt_chain_def js_bind_def)
  qed
next
  fix u
  assume u: "get_prop r ''redirect_url'' = Inr u \<and> truthy u"
  then show "settle i18n (Resolved r) = Inr [SetTransactionRedirecting u]"
    using get_prop_not_nullish [of r "''redirect_url''" u]
    by (simp add: settle_def thenHandler_def opt_chain_def js_bind_def)
next
  fix m
  assume "get_prop e ''message'' = Inr m"
  then show "settle i18n (Rejected e) = Inr [SetTransactionError m]"
    by (simp add: settle_def catchHandler_def js_bind_def)
qed

text \<open>
  An empty response, an undefined one, a response with a redirect URL and a rejection with
  an error message, under the identity translation.
\<close>

theorem C1_witness:
  "get_prop (JObj []) ''redirect_url'' = Inr JUndefined \<and> \<not> truthy JUndefined
   \<and> settle (\<lambda>s. s) (Resolved (JObj [])) = Inr [SetTransactionError (JStr payment_error_message)]
   \<and> nullish JUndefined
   \<and> settle (\<lambda>s. s) (Resolved JUndefined) = Inr [SetTransactionError (JStr payment_error_message)]
   \<and> get_prop (JObj [(''redirect_url'', JStr ''https://pay.example/x'')]) ''redirect_url''
       = Inr (JStr ''https://pay.example/x'')
   \<and> truthy (JStr ''https://pay.example/x'')
   \<and> settle (\<lambda>s. s) (Resolved (JObj [(''redirect_url'', JStr ''https://pay.example/x'')]))
       = Inr [SetTransactionRedirecting (JStr ''https://pay.example/x'')]
   \<and> get_prop (JObj [(''message'', JStr ''card declined'')]) ''message''
       = Inr (JStr ''card declined'')
   \<and> settle (\<lambda>s. s) (Rejected (JObj [(''message'', JStr ''card declined'')]))
       = Inr [SetTransactionError (JStr ''card declined'')]"
  using C1_settlement_sets_status [of "JObj []" "\<lambda>s. s" JNull]
    C1_settlement_sets_status [of JUndefined "\<lambda>s. s" JNull]
    C1_settlement_sets_status [of "JObj [(''redirect_url'', JStr ''https://pay.example/x'')]"
      "\<lambda>s. s" "JObj [(''message'', JStr ''card declined'')]"]
  by simp

text \<open>
  Claim C1 as written fails on a response whose \<^verbatim>\<open>redirect_url\<close> is the empty string:
  the field is present, and the status is set to error, not to redirecting with that value.
\<close>

theorem C1_counterexample:
  "map_of [(''redirect_url'', JStr '''')] ''redirect_url'' = Some (JStr '''')
   \<and> settle (\<lambda>s. s) (Resolved (JObj [(''redirect_url'', JStr '''')]))
       = Inr [SetTransactionError (JStr payment_error_message)]
   \<and> settle (\<lambda>s. s) (Resolved (JObj [(''redirect_url'', JStr '''')]))
       \<noteq> Inr [SetTransactionRedirecting (JStr '''')]"
  by (simp add: settle_def thenHandler_def opt_chain_def js_bind_def)

section \<open>Properties of the button's label\<close>

text \<open>
  Claim C9. The content of the button is chosen in three ways by the form status alone: the
  translated processing label when it is \<^verbatim>\<open>submitting\<close>, the translated template
  \<^verbatim>\<open>Pay %s\<close> formatted with the rendered display value of the total when it is
  \<^verbatim>\<open>ready\<close>, and the translated please-wait label for every other status.
\<close>

theorem C9_button_contents:
  "(formStatus = ''submitting'' \<longrightarrow>
      ButtonContents i18n sprintf renderDisplayValueMarkdown formStatus tot
        = i18n (''Processing'' @ ellipsis))
   \<and> (formStatus = ''ready'' \<longrightarrow>
      ButtonContents i18n sprintf renderDisplayValueMarkdown formStatus tot
        = sprintf (i18n ''Pay %s'') (renderDisplayValueMarkdown (displayValue (amount tot))))
   \<and> (formStatus \<noteq> ''submitting'' \<and> formStatus \<noteq> ''ready'' \<longrightarrow>
      ButtonContents i18n sprintf renderDisplayValueMarkdown formStatus tot
        = i18n (''Please wait'' @ ellipsis))"
  by (simp add: ButtonContents_def)

text \<open>The three labels for a total of $10, untranslated, the pay label holding the total.\<close>

theorem C9_witness:
  "ButtonContents (\<lambda>s. s) sprintf_s (\<lambda>s. s) ''submitting'' \<lparr> amount = \<lparr> displayValue = ''$10'' \<rparr> \<rparr>
     = ''Processing'' @ ellipsis
   \<and> ButtonContents (\<lambda>s. s) sprintf_s (\<lambda>s. s) ''ready'' \<lparr> amount = \<lparr> displayValue = ''$10'' \<rparr> \<rparr>
     = ''Pay $10''
   \<and> ButtonContents (\<lambda>s. s) sprintf_s (\<lambda>s. s) ''pending'' \<lparr> amount = \<lparr> displayValue = ''$10'' \<rparr> \<rparr>
     = ''Please wait'' @ ellipsis"
  using C9_button_contents [of "''submitting''" "\<lambda>s. s" sprintf_s "\<lambda>s. s"
      "\<lparr> amount = \<lparr> displayValue = ''$10'' \<rparr> \<rparr>"]
    C9_button_contents [of "''ready''" "\<lambda>s. s" sprintf_s "\<lambda>s. s"
      "\<lparr> amount = \<lparr> displayValue = ''$10'' \<rparr> \<rparr>"]
    C9_button_contents [of "''pending''" "\<lambda>s. s" sprintf_s "\<lambda>s. s"
      "\<lparr> amount = \<lparr> displayValue = ''$10'' \<rparr> \<rparr>"]
  by simp

end
